theory Spec2Isabelle
  imports Main "HOL-Library.Word"
begin

section \<open>The todo service: identifiers\<close>

text \<open>
  The service of \<^verbatim>\<open>main.go\<close> keeps its tasks in a MongoDB collection and names each
  by a \<^verbatim>\<open>bson.ObjectId\<close>. In Go that type is \<^verbatim>\<open>type ObjectId string\<close>: a string
  holding the raw bytes of the identifier (twelve of them for an identifier made by
  \<^verbatim>\<open>bson.NewObjectId\<close>). A Go string is a byte sequence, which is what \<open>string\<close>
  (a list of 8-bit \<open>char\<close>s) is here.
\<close>

type_synonym ObjectId = string

subsection \<open>Hexadecimal strings (\<^verbatim>\<open>encoding/hex\<close>)\<close>

text \<open>
  \<^verbatim>\<open>bson\<close> goes through Go's \<^verbatim>\<open>encoding/hex\<close>. The library is not part of the
  repository; the functions below follow its code.
  \<^verbatim>\<open>
  const hextable = "0123456789abcdef"
  func EncodeToString(src []byte) string   // dst[2i] = hextable[v>>4]; dst[2i+1] = hextable[v&0x0f]
  \<close>
\<close>

definition hextable :: string where
  "hextable = ''0123456789abcdef''"

fun EncodeToString :: "string \<Rightarrow> string" where
  "EncodeToString [] = []"
| "EncodeToString (v # src) =
     hextable ! ((of_char v :: nat) div 16) # hextable ! ((of_char v :: nat) mod 16)
       # EncodeToString src"

text \<open>
  \<^verbatim>\<open>
  func fromHexChar(c byte) (byte, bool) {
      switch {
      case '0' <= c && c <= '9': return c - '0', true
      case 'a' <= c && c <= 'f': return c - 'a' + 10, true
      case 'A' <= c && c <= 'F': return c - 'A' + 10, true
      }
      return 0, false
  }
  \<close>
  \<open>None\<close> is the \<^verbatim>\<open>false\<close> result.
\<close>

definition fromHexChar :: "char \<Rightarrow> nat option" where
  "fromHexChar c =
     (let n = (of_char c :: nat) in
      if 48 \<le> n \<and> n \<le> 57 then Some (n - 48)
      else if 97 \<le> n \<and> n \<le> 102 then Some (n - 97 + 10)
      else if 65 \<le> n \<and> n \<le> 70 then Some (n - 65 + 10)
      else None)"

text \<open>
  \<^verbatim>\<open>hex.DecodeString\<close> reads two characters per byte and fails
  (\<^verbatim>\<open>InvalidByteError\<close> or \<^verbatim>\<open>ErrLength\<close>) on a character that is no hex digit
  and on an odd length. Both callers below only test \<^verbatim>\<open>err != nil\<close>, so the
  error is \<open>None\<close>.
\<close>

fun DecodeString :: "string \<Rightarrow> string option" where
  "DecodeString [] = Some []"
| "DecodeString [p] = None"
| "DecodeString (p # q # src) =
     (case fromHexChar p of
        None \<Rightarrow> None
      | Some a \<Rightarrow>
          (case fromHexChar q of
             None \<Rightarrow> None
           | Some b \<Rightarrow>
               (case DecodeString src of
                  None \<Rightarrow> None
                | Some dst \<Rightarrow> Some (char_of (a * 16 + b) # dst))))"

subsection \<open>\<^verbatim>\<open>gopkg.in/mgo.v2/bson\<close>: the identifier codec\<close>

text \<open>
  \<^verbatim>\<open>
  func (id ObjectId) Hex() string { return hex.EncodeToString([]byte(id)) }

  func IsObjectIdHex(s string) bool {
      if len(s) != 24 { return false }
      _, err := hex.DecodeString(s)
      return err == nil
  }

  // Calling this function with an invalid hex representation will cause a runtime panic.
  func ObjectIdHex(s string) ObjectId {
      d, err := hex.DecodeString(s)
      if err != nil || len(d) != 12 { panic(fmt.Sprintf("invalid input to ObjectIdHex: %q", s)) }
      return ObjectId(d)
  }
  \<close>
  A panic is a value: \<open>Inl\<close> of the panic, carrying the offending string.
  These are the identifier codec of the service: \<open>Hex\<close> is the external form of an
  identifier, \<open>IsObjectIdHex\<close> the syntactic check of an external form (24 hexadecimal
  digits) and \<open>ObjectIdHex\<close> the decoding, which fails outside the check
  (\<open>ObjectIdHex_panics\<close>, \<open>ObjectIdHex_decodes\<close> and \<open>Hex_valid\<close> below).
\<close>

datatype panic = InvalidObjectIdHex string | UnsupportedFlag string string

definition Hex :: "ObjectId \<Rightarrow> string" where
  "Hex oid = EncodeToString oid"

definition IsObjectIdHex :: "string \<Rightarrow> bool" where
  "IsObjectIdHex s = (if length s \<noteq> 24 then False else DecodeString s \<noteq> None)"

definition ObjectIdHex :: "string \<Rightarrow> panic + ObjectId" where
  "ObjectIdHex s =
     (case DecodeString s of
        None \<Rightarrow> Inl (InvalidObjectIdHex s)
      | Some d \<Rightarrow> if length d \<noteq> 12 then Inl (InvalidObjectIdHex s) else Inr d)"

subsection \<open>\<^verbatim>\<open>gopkg.in/mgo.v2/bson\<close>: struct tags\<close>

text \<open>
  Before \<^verbatim>\<open>bson\<close> marshals a struct or unmarshals a document into one, it reads
  the \<^verbatim>\<open>bson\<close> tags of the struct's fields (\<^verbatim>\<open>getStructInfo\<close>):
  \<^verbatim>\<open>
  tag := field.Tag.Get("bson")
  if tag == "-" { continue }
  fields := strings.Split(tag, ",")
  if len(fields) > 1 {
      for _, flag := range fields[1:] {
          switch flag {
          case "omitempty": ...
          case "minsize": ...
          case "inline": ...
          default:
              panic(externalPanic(fmt.Sprintf("Unsupported flag %q in tag %q of type %s", flag, tag, st)))
          }
      }
      tag = fields[0]
  }
  \<close>
  The flags are compared as they stand between the commas, spaces included, and
  \<^verbatim>\<open>Marshal\<close> and \<^verbatim>\<open>Unmarshal\<close> pass an \<^verbatim>\<open>externalPanic\<close> on: it is a panic of
  the caller, not an error. \<open>getStructInfo\<close> takes the tags of the fields in order and
  gives the panic, if there is one.
\<close>

fun Split_comma :: "string \<Rightarrow> string list" where
  "Split_comma [] = [[]]"
| "Split_comma (c # cs) =
     (if c = CHR '','' then [] # Split_comma cs
      else (case Split_comma cs of
              [] \<Rightarrow> [[c]]
            | x # xs \<Rightarrow> (c # x) # xs))"

fun checkFlags :: "string \<Rightarrow> string list \<Rightarrow> panic option" where
  "checkFlags tag [] = None"
| "checkFlags tag (flag # flags) =
     (if flag = ''omitempty'' \<or> flag = ''minsize'' \<or> flag = ''inline''
      then checkFlags tag flags
      else Some (UnsupportedFlag flag tag))"

definition checkTag :: "string \<Rightarrow> panic option" where
  "checkTag tag =
     (if tag = ''-'' then None
      else (case Split_comma tag of
              [] \<Rightarrow> None
            | name # flags \<Rightarrow> checkFlags tag flags))"

fun getStructInfo :: "string list \<Rightarrow> panic option" where
  "getStructInfo [] = None"
| "getStructInfo (tag # tags) =
     (case checkTag tag of
        Some p \<Rightarrow> Some p
      | None \<Rightarrow> getStructInfo tags)"

subsection \<open>\<^verbatim>\<open>strings.TrimSpace\<close>\<close>

text \<open>
  \<^verbatim>\<open>strings.TrimSpace\<close> removes all leading and all trailing white space, as
  \<^verbatim>\<open>unicode.IsSpace\<close> defines it, from a UTF-8 string: the six ASCII characters
  tab, newline, vertical tab, form feed, carriage return and space, and the runes
  U+0085, U+00A0, U+1680, U+2000 to U+200A, U+2028, U+2029, U+202F, U+205F and U+3000.
  On bytes, a string starts (ends) with a white-space rune exactly when it starts (ends)
  with the UTF-8 encoding of one. \<open>spaceWidth s\<close> is the number of bytes of the
  white-space rune \<open>s\<close> starts with, and 0 when it starts with none.
\<close>

definition spaceRunes :: "string list" where
  "spaceRunes =
     [[CHR 0x09], [CHR 0x0A], [CHR 0x0B], [CHR 0x0C], [CHR 0x0D], [CHR 0x20],
      [CHR 0xC2, CHR 0x85], [CHR 0xC2, CHR 0xA0],
      [CHR 0xE1, CHR 0x9A, CHR 0x80],
      [CHR 0xE2, CHR 0x80, CHR 0x80], [CHR 0xE2, CHR 0x80, CHR 0x81],
      [CHR 0xE2, CHR 0x80, CHR 0x82], [CHR 0xE2, CHR 0x80, CHR 0x83],
      [CHR 0xE2, CHR 0x80, CHR 0x84], [CHR 0xE2, CHR 0x80, CHR 0x85],
      [CHR 0xE2, CHR 0x80, CHR 0x86], [CHR 0xE2, CHR 0x80, CHR 0x87],
      [CHR 0xE2, CHR 0x80, CHR 0x88], [CHR 0xE2, CHR 0x80, CHR 0x89],
      [CHR 0xE2, CHR 0x80, CHR 0x8A],
      [CHR 0xE2, CHR 0x80, CHR 0xA8], [CHR 0xE2, CHR 0x80, CHR 0xA9],
      [CHR 0xE2, CHR 0x80, CHR 0xAF], [CHR 0xE2, CHR 0x81, CHR 0x9F],
      [CHR 0xE3, CHR 0x80, CHR 0x80]]"

definition spaceWidth :: "string \<Rightarrow> nat" where
  "spaceWidth s =
     (case filter (\<lambda>e. take (length e) s = e) spaceRunes of
        [] \<Rightarrow> 0
      | e # _ \<Rightarrow> length e)"

definition spaceWidthLast :: "string \<Rightarrow> nat" where
  "spaceWidthLast s =
     (case filter (\<lambda>e. drop (length s - length e) s = e) spaceRunes of
        [] \<Rightarrow> 0
      | e # _ \<Rightarrow> length e)"

lemma spaceWidth_le: "spaceWidth s \<le> length s"
proof (cases "filter (\<lambda>e. take (length e) s = e) spaceRunes")
  case Nil
  then show ?thesis by (simp add: spaceWidth_def)
next
  case (Cons e es)
  then have "e \<in> set (filter (\<lambda>e. take (length e) s = e) spaceRunes)" by simp
  then have "take (length e) s = e" by simp
  then have "length e \<le> length s"
    by (metis length_take min.cobounded1)
  with Cons show ?thesis by (simp add: spaceWidth_def)
qed

lemma spaceWidthLast_le: "spaceWidthLast s \<le> length s"
proof (cases "filter (\<lambda>e. drop (length s - length e) s = e) spaceRunes")
  case Nil
  then show ?thesis by (simp add: spaceWidthLast_def)
next
  case (Cons e es)
  then have "e \<in> set (filter (\<lambda>e. drop (length s - length e) s = e) spaceRunes)" by simp
  then have "drop (length s - length e) s = e" by simp
  then have "length e \<le> length s"
    by (metis length_drop diff_le_self)
  with Cons show ?thesis by (simp add: spaceWidthLast_def)
qed

function TrimLeft :: "string \<Rightarrow> string" where
  "TrimLeft s = (if spaceWidth s = 0 then s else TrimLeft (drop (spaceWidth s) s))"
  by pat_completeness auto
termination
proof (relation "measure length")
  show "wf (measure length)" by simp
next
  fix s :: string
  assume "spaceWidth s \<noteq> 0"
  moreover have "spaceWidth s \<le> length s" by (rule spaceWidth_le)
  ultimately show "(drop (spaceWidth s) s, s) \<in> measure length" by simp
qed

function TrimRight :: "string \<Rightarrow> string" where
  "TrimRight s =
     (if spaceWidthLast s = 0 then s else TrimRight (take (length s - spaceWidthLast s) s))"
  by pat_completeness auto
termination
proof (relation "measure length")
  show "wf (measure length)" by simp
next
  fix s :: string
  assume "spaceWidthLast s \<noteq> 0"
  moreover have "spaceWidthLast s \<le> length s" by (rule spaceWidthLast_le)
  ultimately show "(take (length s - spaceWidthLast s) s, s) \<in> measure length" by simp
qed

definition TrimSpace :: "string \<Rightarrow> string" where
  "TrimSpace s = TrimRight (TrimLeft s)"

section \<open>The data model of \<^verbatim>\<open>main.go\<close>\<close>

text \<open>
  \<^verbatim>\<open>time.Time\<close> is a struct of a wall-clock word, a monotonic/extended word and a
  location pointer; the handlers only copy it. Its zero value (all fields zero, the
  location nil) is January 1, year 1, 00:00:00 UTC.
\<close>

record Time =
  wall :: "64 word"
  ext :: "64 word"
  loc :: "string option"

definition zeroTime :: Time where
  "zeroTime = \<lparr>wall = 0, ext = 0, loc = None\<rparr>"

text \<open>
  \<^verbatim>\<open>
  todoModel struct { ID bson.ObjectId; Title string; Completed bool; CreatedAt time.Time }
  todo      struct { ID string;        Title string; Completed bool; CreatedAt time.Time }
  \<close>
  The persisted record and the wire task have the same field names; the fields of the
  first are written \<open>todoModel.Title\<close>, those of the second \<open>todo.Title\<close>.
\<close>

record todoModel =
  ID :: ObjectId
  Title :: string
  Completed :: bool
  CreatedAt :: Time

text \<open>
  The \<^verbatim>\<open>bson\<close> tags of \<^verbatim>\<open>todoModel\<close>, as lines 31 to 34 have them; the first has
  a space after its comma.
  \<^verbatim>\<open>
  ID        bson.ObjectId `bson:"_id, omitempty"`
  Title     string        `bson:"title"`
  Completed bool          `bson:"completed"`
  CreatedAt time.Time     `bson:"createdAt"`
  \<close>
\<close>

definition todoModelTags :: "string list" where
  "todoModelTags = [''_id, omitempty'', ''title'', ''completed'', ''createdAt'']"

record todo =
  ID :: string
  Title :: string
  Completed :: bool
  CreatedAt :: Time

text \<open>\<^verbatim>\<open>var t todo\<close>: the zero value of the wire task.\<close>

definition zeroTodo :: todo where
  "zeroTodo = \<lparr>todo.ID = [], todo.Title = [], todo.Completed = False,
     todo.CreatedAt = zeroTime\<rparr>"

text \<open>A Go \<^verbatim>\<open>error\<close> value, by its message.\<close>

datatype goerror = GoError string

text \<open>
  A Go slice is nil or holds elements; \<^verbatim>\<open>encoding/json\<close> prints a nil slice as
  \<^verbatim>\<open>null\<close> and an empty one as \<^verbatim>\<open>[]\<close>. \<^verbatim>\<open>append\<close> to either gives a
  slice that is not nil.
\<close>

datatype 'a slice = NilSlice | Slice "'a list"

fun append_slice :: "'a slice \<Rightarrow> 'a \<Rightarrow> 'a slice" where
  "append_slice NilSlice x = Slice [x]"
| "append_slice (Slice xs) x = Slice (xs @ [x])"

text \<open>
  What a handler hands to \<^verbatim>\<open>rndr.JSON\<close>: a \<^verbatim>\<open>renderer.M\<close>
  (\<^verbatim>\<open>map[string]interface{}\<close>) whose values are strings, errors or the slice of wire
  tasks, or (in the decode branch of \<^verbatim>\<open>createTodo\<close>) the error itself.
\<close>

datatype jvalue = JString string | JError goerror | JTodos "todo slice"

datatype payload = M "string \<Rightarrow> jvalue option" | ErrorBody goerror

fun jsonNull :: "jvalue \<Rightarrow> bool" where
  "jsonNull (JTodos NilSlice) = True"
| "jsonNull _ = False"

definition StatusProcessing :: nat where "StatusProcessing = 102"
definition StatusOK :: nat where "StatusOK = 200"
definition StatusCreated :: nat where "StatusCreated = 201"
definition StatusBadRequest :: nat where "StatusBadRequest = 400"

subsection \<open>Requests\<close>

text \<open>
  The body of a request, as \<^verbatim>\<open>json.NewDecoder(r.Body).Decode(&t)\<close> sees it: either
  it does not decode into a \<^verbatim>\<open>todo\<close> (\<open>Malformed\<close>, with the decoder's error), or it
  is a JSON object, of which the decoder reads the members \<^verbatim>\<open>id\<close>, \<^verbatim>\<open>title\<close>,
  \<^verbatim>\<open>completed\<close> and \<^verbatim>\<open>createdAt\<close> (the struct tags of \<^verbatim>\<open>todo\<close>). A member that
  is absent leaves the field of \<^verbatim>\<open>t\<close> as it was.
\<close>

datatype body =
  Malformed goerror
| Object "string option" "string option" "bool option" "Time option"

fun Decode :: "body \<Rightarrow> todo \<Rightarrow> goerror + todo" where
  "Decode (Malformed err) t = Inl err"
| "Decode (Object i ti c ca) t =
     Inr \<lparr>todo.ID = (case i of None \<Rightarrow> todo.ID t | Some x \<Rightarrow> x),
          todo.Title = (case ti of None \<Rightarrow> todo.Title t | Some x \<Rightarrow> x),
          todo.Completed = (case c of None \<Rightarrow> todo.Completed t | Some x \<Rightarrow> x),
          todo.CreatedAt = (case ca of None \<Rightarrow> todo.CreatedAt t | Some x \<Rightarrow> x)\<rparr>"

record request =
  Body :: body
  URLParams :: "string \<Rightarrow> string option"

text \<open>\<^verbatim>\<open>chi.URLParam(r, key)\<close>: the path parameter, or the empty string.\<close>

definition URLParam :: "request \<Rightarrow> string \<Rightarrow> string" where
  "URLParam r key = (case URLParams r key of None \<Rightarrow> [] | Some v \<Rightarrow> v)"

subsection \<open>The store, the renderer and the state a handler runs in\<close>

text \<open>
  The handlers reach MongoDB through the process-wide \<^verbatim>\<open>db\<close> and write through the
  process-wide \<^verbatim>\<open>rndr\<close>. Neither is code of the repository, so both are parameters:
  \<open>'s\<close> is the state of the database, and an \<open>env\<close> gives
  \<^item> the identifier \<^verbatim>\<open>bson.NewObjectId()\<close> returns during the request,
  \<^item> the error of getting a connection to the server for a write (\<open>dbSocket\<close>;
    \<open>None\<close> when the server is reached),
  \<^item> what the server does with an insert, a find of all documents and a removal by
    identifier, and what the driver returns for it (\<open>None\<close> is a nil error; the
    \<open>Inl\<close> of \<open>dbFindAll\<close> is the error of a find that brought no document back),
  \<^item> the error \<^verbatim>\<open>rndr.JSON\<close> returns for a status and a payload (it fails when the
    payload cannot be marshalled or the write to the client fails).
\<close>

record 's env =
  newObjectId :: ObjectId
  dbSocket :: "'s \<Rightarrow> goerror option"
  dbInsert :: "todoModel \<Rightarrow> 's \<Rightarrow> goerror option \<times> 's"
  dbFindAll :: "'s \<Rightarrow> (goerror + todoModel list) \<times> 's"
  dbRemoveId :: "ObjectId \<Rightarrow> 's \<Rightarrow> goerror option \<times> 's"
  jsonError :: "nat \<Rightarrow> payload \<Rightarrow> goerror option"

datatype dbCall = CallInsert todoModel | CallFindAll | CallRemoveId ObjectId

text \<open>
  The state a handler runs in: the database, the calls made on the collection so far
  and the \<^verbatim>\<open>rndr.JSON\<close> calls made on the response writer so far, both in order.
\<close>

record 's world =
  db :: 's
  dbCalls :: "dbCall list"
  wrote :: "(nat \<times> payload) list"

text \<open>
  \<^verbatim>\<open>db.C(collectionName).Insert(&tm)\<close>: the driver gets a connection, and returns the
  error when there is none; then it marshals the record to send it, and
  \<^verbatim>\<open>bson.Marshal\<close> reads the tags of \<^verbatim>\<open>todoModel\<close> first. The result is the panic
  (\<open>Inl\<close>) or the error the call returns.
\<close>

definition Insert ::
  "'s env \<Rightarrow> todoModel \<Rightarrow> 's world \<Rightarrow> (panic + goerror option) \<times> 's world" where
  "Insert env tm wd =
     (let wd1 = wd\<lparr>dbCalls := dbCalls wd @ [CallInsert tm]\<rparr> in
      case dbSocket env (db wd) of
        Some err \<Rightarrow> (Inr (Some err), wd1)
      | None \<Rightarrow>
          (case getStructInfo todoModelTags of
             Some p \<Rightarrow> (Inl p, wd1)
           | None \<Rightarrow>
               (case dbInsert env tm (db wd) of
                  (err, s) \<Rightarrow> (Inr err, wd1\<lparr>db := s\<rparr>))))"

text \<open>
  \<^verbatim>\<open>db.C(collectionName).Find(bson.M{}).All(&todos)\<close>: the error of the find, or the
  documents it brought back, each unmarshalled into a \<^verbatim>\<open>todoModel\<close>;
  \<^verbatim>\<open>bson.Unmarshal\<close> reads the tags of \<^verbatim>\<open>todoModel\<close> at the first document. With no
  document nothing is unmarshalled.
\<close>

definition FindAll ::
  "'s env \<Rightarrow> 's world \<Rightarrow> (panic + (goerror + todoModel list)) \<times> 's world" where
  "FindAll env wd =
     (case dbFindAll env (db wd) of
        (res, s) \<Rightarrow>
          (let wd1 = wd\<lparr>db := s, dbCalls := dbCalls wd @ [CallFindAll]\<rparr> in
           case res of
             Inl err \<Rightarrow> (Inr (Inl err), wd1)
           | Inr [] \<Rightarrow> (Inr (Inr []), wd1)
           | Inr (d # ds) \<Rightarrow>
               (case getStructInfo todoModelTags of
                  Some p \<Rightarrow> (Inl p, wd1)
                | None \<Rightarrow> (Inr (Inr (d # ds)), wd1))))"

definition RemoveId :: "'s env \<Rightarrow> ObjectId \<Rightarrow> 's world \<Rightarrow> goerror option \<times> 's world" where
  "RemoveId env oid wd =
     (case dbRemoveId env oid (db wd) of
        (err, s) \<Rightarrow> (err, wd\<lparr>db := s, dbCalls := dbCalls wd @ [CallRemoveId oid]\<rparr>))"

definition JSON :: "'s env \<Rightarrow> nat \<Rightarrow> payload \<Rightarrow> 's world \<Rightarrow> goerror option \<times> 's world" where
  "JSON env status v wd = (jsonError env status v, wd\<lparr>wrote := wrote wd @ [(status, v)]\<rparr>)"

text \<open>
  How a handler ends: it returns; or \<^verbatim>\<open>checkerr\<close> gets an error and
  \<^verbatim>\<open>log.Fatal\<close> ends the process; or it panics.
  \<^verbatim>\<open>
  func checkerr(err error) { if err != nil { log.Fatal(err) } }
  \<close>
\<close>

datatype outcome = Returned | Fatal goerror | Panicked panic

definition checkerr :: "goerror option \<Rightarrow> outcome" where
  "checkerr err = (case err of None \<Rightarrow> Returned | Some e \<Rightarrow> Fatal e)"

section \<open>The handlers\<close>

subsection \<open>The mapping between wire tasks and records\<close>

text \<open>
  The two struct literals of the handlers: the record \<^verbatim>\<open>createTodo\<close> builds from the
  decoded task and the fresh identifier (lines 127 to 132), and the wire task
  \<^verbatim>\<open>fetchTodo\<close> builds from a record (lines 166 to 171).
\<close>

definition toRecord :: "todo \<Rightarrow> ObjectId \<Rightarrow> todoModel" where
  "toRecord t oid =
     \<lparr>todoModel.ID = oid,
      todoModel.Title = todo.Title t,
      todoModel.Completed = todo.Completed t,
      todoModel.CreatedAt = todo.CreatedAt t\<rparr>"

definition toWire :: "todoModel \<Rightarrow> todo" where
  "toWire t =
     \<lparr>todo.ID = Hex (todoModel.ID t),
      todo.Title = todoModel.Title t,
      todo.Completed = todoModel.Completed t,
      todo.CreatedAt = todoModel.CreatedAt t\<rparr>"

subsection \<open>\<^verbatim>\<open>createTodo\<close>\<close>

definition createTodo :: "'s env \<Rightarrow> request \<Rightarrow> 's world \<Rightarrow> outcome \<times> 's world" where
  "createTodo env r wd =
     (case Decode (Body r) zeroTodo of
        Inl err \<Rightarrow>
          (case JSON env StatusProcessing (ErrorBody err) wd of
             (err1, wd1) \<Rightarrow> (checkerr err1, wd1))
      | Inr t \<Rightarrow>
          if todo.Title t = [] then
            (case JSON env StatusProcessing
                    (M [''error'' \<mapsto> JString ''The title cannot be empty'']) wd of
               (_, wd1) \<Rightarrow> (Returned, wd1))
          else
            (let tm = toRecord t (newObjectId env) in
             case Insert env tm wd of
               (Inl p, wd1) \<Rightarrow> (Panicked p, wd1)
             | (Inr (Some err), wd1) \<Rightarrow>
                 (case JSON env StatusProcessing
                         (M [''message'' \<mapsto> JString ''Failed to create TODO'',
                             ''error'' \<mapsto> JError err]) wd1 of
                    (err1, wd2) \<Rightarrow> (checkerr err1, wd2))
             | (Inr None, wd1) \<Rightarrow>
                 (case JSON env StatusCreated
                         (M [''message'' \<mapsto> JString ''TODO created successfully'',
                             ''todo_id'' \<mapsto> JString (Hex (todoModel.ID tm))]) wd1 of
                    (_, wd2) \<Rightarrow> (Returned, wd2))))"

subsection \<open>\<^verbatim>\<open>fetchTodo\<close>\<close>

text \<open>
  The loop \<^verbatim>\<open>for _, t := range todos { todoList = append(todoList, todo{...}) }\<close>,
  with the slice built so far as the second argument.
\<close>

fun fetchLoop :: "todoModel list \<Rightarrow> todo slice \<Rightarrow> todo slice" where
  "fetchLoop [] todoList = todoList"
| "fetchLoop (t # todos) todoList = fetchLoop todos (append_slice todoList (toWire t))"

definition fetchTodo :: "'s env \<Rightarrow> request \<Rightarrow> 's world \<Rightarrow> outcome \<times> 's world" where
  "fetchTodo env r wd =
     (case FindAll env wd of
        (Inl p, wd1) \<Rightarrow> (Panicked p, wd1)
      | (Inr (Inl err), wd1) \<Rightarrow>
          (case JSON env StatusProcessing
                  (M [''message'' \<mapsto> JString ''Failed to fetch todo'',
                      ''error'' \<mapsto> JError err]) wd1 of
             (err1, wd2) \<Rightarrow> (checkerr err1, wd2))
      | (Inr (Inr todos), wd1) \<Rightarrow>
          (let todoList = fetchLoop todos (Slice []) in
           case JSON env StatusOK (M [''data'' \<mapsto> JTodos todoList]) wd1 of
             (err1, wd2) \<Rightarrow> (checkerr err1, wd2)))"

subsection \<open>\<^verbatim>\<open>updateTodo\<close>\<close>

text \<open>The body of \<^verbatim>\<open>updateTodo\<close> is empty.\<close>

definition updateTodo :: "'s env \<Rightarrow> request \<Rightarrow> 's world \<Rightarrow> outcome \<times> 's world" where
  "updateTodo env r wd = (Returned, wd)"

subsection \<open>\<^verbatim>\<open>deleteTodo\<close>\<close>

text \<open>
  Go evaluates the argument \<^verbatim>\<open>bson.ObjectIdHex(id)\<close> before it calls
  \<^verbatim>\<open>RemoveId\<close>: when the decoding panics, the collection is not reached.
\<close>

definition deleteTodo :: "'s env \<Rightarrow> request \<Rightarrow> 's world \<Rightarrow> outcome \<times> 's world" where
  "deleteTodo env r wd =
     (let id = TrimSpace (URLParam r ''id'') in
      if IsObjectIdHex id then
        (case JSON env StatusBadRequest (M [''error'' \<mapsto> JString ''Invalid URL request'']) wd of
           (err1, wd1) \<Rightarrow> (checkerr err1, wd1))
      else
        (case ObjectIdHex id of
           Inl p \<Rightarrow> (Panicked p, wd)
         | Inr oid \<Rightarrow>
             (case RemoveId env oid wd of
                (Some err, wd1) \<Rightarrow>
                  (case JSON env StatusProcessing
                          (M [''message'' \<mapsto> JString ''Failed to remove TODO'',
                              ''error'' \<mapsto> JError err]) wd1 of
                     (err1, wd2) \<Rightarrow> (checkerr err1, wd2))
              | (None, wd1) \<Rightarrow> (Returned, wd1))))"

subsection \<open>What the client is sent\<close>

text \<open>
  \<^verbatim>\<open>rndr.JSON(w, status, v)\<close> calls \<^verbatim>\<open>w.WriteHeader(status)\<close> and writes the
  JSON of \<^verbatim>\<open>v\<close>. \<^verbatim>\<open>net/http\<close> sends a status from 100 to 199 other than 101 as an
  interim response, and the write that follows goes out under the final status 200;
  any other first status is the final one. When a handler returns without having
  written anything, \<^verbatim>\<open>net/http\<close> sends the status 200 and no body. \<open>served\<close> gives,
  for a handler that returned, the final status and the payloads written under it.
\<close>

definition informational :: "nat \<Rightarrow> bool" where
  "informational status = (100 \<le> status \<and> status \<le> 199 \<and> status \<noteq> 101)"

definition served :: "(nat \<times> payload) list \<Rightarrow> nat \<times> payload list" where
  "served ws =
     (case ws of
        [] \<Rightarrow> (StatusOK, [])
      | (status, v) # rest \<Rightarrow>
          (if informational status then StatusOK else status, v # map snd rest))"

subsection \<open>Environments to run the handlers in\<close>

text \<open>
  \<open>memEnv\<close> keeps the collection as a list of records in memory and is always reached:
  an insert appends, unless a record has the identifier already; a find gives the list;
  a removal drops the record with the identifier, or fails when there is none. Its
  renderer never fails. In \<open>offlineEnv\<close> the server is not reached and every call on the
  collection fails; the renderer works. In \<open>downEnv\<close> the write to the client fails as
  well.
\<close>

definition memEnv :: "ObjectId \<Rightarrow> (todoModel list) env" where
  "memEnv oid =
     \<lparr>newObjectId = oid,
      dbSocket = (\<lambda>s. None),
      dbInsert = (\<lambda>tm s.
        if todoModel.ID tm \<in> set (map todoModel.ID s)
        then (Some (GoError ''E11000 duplicate key error''), s)
        else (None, s @ [tm])),
      dbFindAll = (\<lambda>s. (Inr s, s)),
      dbRemoveId = (\<lambda>i s.
        if i \<in> set (map todoModel.ID s)
        then (None, filter (\<lambda>tm. todoModel.ID tm \<noteq> i) s)
        else (Some (GoError ''not found''), s)),
      jsonError = (\<lambda>status v. None)\<rparr>"

definition offlineEnv :: "ObjectId \<Rightarrow> (todoModel list) env" where
  "offlineEnv oid =
     \<lparr>newObjectId = oid,
      dbSocket = (\<lambda>s. Some (GoError ''no reachable servers'')),
      dbInsert = (\<lambda>tm s. (Some (GoError ''no reachable servers''), s)),
      dbFindAll = (\<lambda>s. (Inl (GoError ''no reachable servers''), s)),
      dbRemoveId = (\<lambda>i s. (Some (GoError ''no reachable servers''), s)),
      jsonError = (\<lambda>status v. None)\<rparr>"

definition downEnv :: "ObjectId \<Rightarrow> (todoModel list) env" where
  "downEnv oid =
     (offlineEnv oid)\<lparr>jsonError := (\<lambda>status v. Some (GoError ''write: broken pipe''))\<rparr>"

definition emptyWorld :: "(todoModel list) world" where
  "emptyWorld = \<lparr>db = [], dbCalls = [], wrote = []\<rparr>"

section \<open>Properties\<close>

subsection \<open>The identifier codec and the list loop\<close>

lemma DecodeString_length: "DecodeString s = Some d \<Longrightarrow> length s = 2 * length d"
  by (induction s arbitrary: d rule: DecodeString.induct) (auto split: option.splits)

text \<open>
  \<^verbatim>\<open>bson.ObjectIdHex\<close> panics on every string \<^verbatim>\<open>bson.IsObjectIdHex\<close> rejects, and
  decodes every string it accepts: the check is the precondition of the decoding.
\<close>

lemma ObjectIdHex_panics:
  "\<not> IsObjectIdHex s \<Longrightarrow> ObjectIdHex s = Inl (InvalidObjectIdHex s)"
  by (auto simp: IsObjectIdHex_def ObjectIdHex_def dest: DecodeString_length
      split: option.splits if_splits)

lemma ObjectIdHex_decodes:
  "IsObjectIdHex s \<Longrightarrow> \<exists>oid. ObjectIdHex s = Inr oid \<and> length oid = 12"
  by (auto simp: IsObjectIdHex_def ObjectIdHex_def dest: DecodeString_length
      split: option.splits if_splits)

lemma fromHexChar_hextable: "k < 16 \<Longrightarrow> fromHexChar (hextable ! k) = Some k"
proof -
  assume "k < 16"
  then have "k = 0 \<or> k = 1 \<or> k = 2 \<or> k = 3 \<or> k = 4 \<or> k = 5 \<or> k = 6 \<or> k = 7
    \<or> k = 8 \<or> k = 9 \<or> k = 10 \<or> k = 11 \<or> k = 12 \<or> k = 13 \<or> k = 14 \<or> k = 15"
    by arith
  then show ?thesis
    by (elim disjE) (simp_all add: hextable_def fromHexChar_def)
qed

lemma DecodeString_EncodeToString: "DecodeString (EncodeToString src) = Some src"
proof (induction src)
  case Nil
  then show ?case by simp
next
  case (Cons v src)
  have lt: "(of_char v :: nat) < 256" by (rule nat_of_char_less_256)
  then have a: "(of_char v :: nat) div 16 < 16"
    by arith
  have b: "(of_char v :: nat) mod 16 < 16"
    by simp
  have "char_of ((of_char v :: nat) div 16 * 16 + of_char v mod 16) = v"
    by simp
  with Cons a b show ?case
    by (simp add: fromHexChar_hextable)
qed

text \<open>
  The encoding is lossless: the hexadecimal form of a twelve-byte identifier passes
  \<^verbatim>\<open>bson.IsObjectIdHex\<close> and decodes to the identifier.
\<close>

lemma Hex_valid: "length oid = 12 \<Longrightarrow> IsObjectIdHex (Hex oid) \<and> ObjectIdHex (Hex oid) = Inr oid"
proof -
  assume l: "length oid = 12"
  have d: "DecodeString (EncodeToString oid) = Some oid"
    by (rule DecodeString_EncodeToString)
  then have "length (EncodeToString oid) = 24"
    using DecodeString_length [OF d] l by simp
  with d l show ?thesis
    by (simp add: IsObjectIdHex_def ObjectIdHex_def Hex_def)
qed

lemma fetchLoop_map: "fetchLoop todos (Slice acc) = Slice (acc @ map toWire todos)"
  by (induction todos arbitrary: acc) auto

subsection \<open>The mapper\<close>

text \<open>
  Claim C3. Mapping a wire task \<open>t\<close> to a record with the identifier \<open>oid\<close> and the
  record back to wire form gives \<open>t\<close> again, but for its \<open>ID\<close>, which is the hexadecimal
  encoding of \<open>oid\<close>: the title, the completion flag and the creation time are
  unchanged. This holds for every wire task, whatever its title.
\<close>

theorem toWire_toRecord_roundtrip:
  "toWire (toRecord t oid) = t\<lparr>todo.ID := Hex oid\<rparr>
   \<and> todo.ID (toWire (toRecord t oid)) = Hex oid
   \<and> todo.Title (toWire (toRecord t oid)) = todo.Title t
   \<and> todo.Completed (toWire (toRecord t oid)) = todo.Completed t
   \<and> todo.CreatedAt (toWire (toRecord t oid)) = todo.CreatedAt t"
  by (simp add: toWire_def toRecord_def)

subsection \<open>The update handler\<close>

text \<open>
  Claim C4. For every request, \<open>updateTodo\<close> returns with the state it was given: the
  database and the list of calls on the collection are unchanged, and nothing is written.
  On a fresh response writer the client is therefore sent the status 200 and no body.
\<close>

theorem updateTodo_no_effect:
  "updateTodo env r wd = (Returned, wd)
   \<and> db (snd (updateTodo env r wd)) = db wd
   \<and> dbCalls (snd (updateTodo env r wd)) = dbCalls wd
   \<and> served (wrote (snd (updateTodo env r (wd\<lparr>wrote := []\<rparr>)))) = (StatusOK, [])"
  by (simp add: updateTodo_def served_def)

subsection \<open>The delete handler\<close>

text \<open>
  The two branches of \<open>deleteTodo\<close>. An identifier that \<^verbatim>\<open>bson.IsObjectIdHex\<close>
  accepts is answered with 400; one that it rejects goes to \<^verbatim>\<open>bson.ObjectIdHex\<close>,
  which panics on it. Neither branch reaches \<^verbatim>\<open>RemoveId\<close>.
\<close>

lemma deleteTodo_valid:
  "IsObjectIdHex (TrimSpace (URLParam r ''id'')) \<Longrightarrow>
   deleteTodo env r wd =
     (checkerr (jsonError env StatusBadRequest
        (M [''error'' \<mapsto> JString ''Invalid URL request''])),
      wd\<lparr>wrote := wrote wd @
        [(StatusBadRequest, M [''error'' \<mapsto> JString ''Invalid URL request''])]\<rparr>)"
  by (simp add: deleteTodo_def JSON_def)

lemma deleteTodo_invalid:
  "\<not> IsObjectIdHex (TrimSpace (URLParam r ''id'')) \<Longrightarrow>
   deleteTodo env r wd = (Panicked (InvalidObjectIdHex (TrimSpace (URLParam r ''id''))), wd)"
  by (simp add: deleteTodo_def ObjectIdHex_panics)

lemma deleteTodo_never_reaches_store:
  "db (snd (deleteTodo env r wd)) = db wd \<and> dbCalls (snd (deleteTodo env r wd)) = dbCalls wd"
proof (cases "IsObjectIdHex (TrimSpace (URLParam r ''id''))")
  case True
  then show ?thesis by (simp add: deleteTodo_valid)
next
  case False
  then show ?thesis by (simp add: deleteTodo_invalid)
qed

lemma TrimSpace_not_an_id: "TrimSpace ''not-an-id'' = ''not-an-id''"
  by code_simp

lemma TrimSpace_hex_id: "TrimSpace ''507f1f77bcf86cd799439011'' = ''507f1f77bcf86cd799439011''"
  by code_simp

lemma TrimSpace_xyz: "TrimSpace ''xyz'' = ''xyz''"
  by code_simp

lemma IsObjectIdHex_hex_id: "IsObjectIdHex ''507f1f77bcf86cd799439011''"
  by (simp add: IsObjectIdHex_def fromHexChar_def)

lemma not_IsObjectIdHex_not_an_id: "\<not> IsObjectIdHex ''not-an-id''"
  by (simp add: IsObjectIdHex_def)

lemma not_IsObjectIdHex_xyz: "\<not> IsObjectIdHex ''xyz''"
  by (simp add: IsObjectIdHex_def)

text \<open>
  Claim C1 asks that an identifier that is not syntactically valid be answered with 400
  and \<^verbatim>\<open>{error: "Invalid URL request"}\<close>, and that a valid one be decoded and removed.
  The handler does the opposite on both sides. For \<^verbatim>\<open>DELETE /todo/not-an-id\<close> it
  panics in \<^verbatim>\<open>bson.ObjectIdHex\<close> and writes nothing; for
  \<^verbatim>\<open>DELETE /todo/507f1f77bcf86cd799439011\<close> it writes the 400 payload and leaves
  the collection alone, in every environment and state.
\<close>

theorem deleteTodo_inverted_guard:
  "deleteTodo env \<lparr>Body = b, URLParams = [''id'' \<mapsto> ''not-an-id'']\<rparr> wd
     = (Panicked (InvalidObjectIdHex ''not-an-id''), wd)
   \<and> deleteTodo env \<lparr>Body = b, URLParams = [''id'' \<mapsto> ''507f1f77bcf86cd799439011'']\<rparr> wd
     = (checkerr (jsonError env StatusBadRequest
          (M [''error'' \<mapsto> JString ''Invalid URL request''])),
        wd\<lparr>wrote := wrote wd @
          [(StatusBadRequest, M [''error'' \<mapsto> JString ''Invalid URL request''])]\<rparr>)"
proof
  let ?r = "\<lparr>Body = b, URLParams = [''id'' \<mapsto> ''not-an-id'']\<rparr>"
  have "TrimSpace (URLParam ?r ''id'') = ''not-an-id''"
    by (simp add: URLParam_def TrimSpace_not_an_id)
  then show "deleteTodo env ?r wd = (Panicked (InvalidObjectIdHex ''not-an-id''), wd)"
    using deleteTodo_invalid [of ?r env wd] not_IsObjectIdHex_not_an_id by simp
next
  let ?r = "\<lparr>Body = b, URLParams = [''id'' \<mapsto> ''507f1f77bcf86cd799439011'']\<rparr>"
  have "TrimSpace (URLParam ?r ''id'') = ''507f1f77bcf86cd799439011''"
    by (simp add: URLParam_def TrimSpace_hex_id)
  then show "deleteTodo env ?r wd
     = (checkerr (jsonError env StatusBadRequest
          (M [''error'' \<mapsto> JString ''Invalid URL request''])),
        wd\<lparr>wrote := wrote wd @
          [(StatusBadRequest, M [''error'' \<mapsto> JString ''Invalid URL request''])]\<rparr>)"
    using deleteTodo_valid [of ?r env wd] IsObjectIdHex_hex_id by simp
qed

text \<open>
  Claim C9. There are requests whose trimmed path identifier is not valid identifier hex,
  and for every such request the guard of \<open>deleteTodo\<close> lets it through to
  \<^verbatim>\<open>bson.ObjectIdHex\<close>, whose decoding fails on it: the handler panics, with the
  state as it was. The guard does not establish the precondition of the decoding.
\<close>

theorem deleteTodo_decode_panic_reachable:
  "(\<exists>r. \<not> IsObjectIdHex (TrimSpace (URLParam r ''id'')))
   \<and> (\<forall>r. \<not> IsObjectIdHex (TrimSpace (URLParam r ''id'')) \<longrightarrow>
          ObjectIdHex (TrimSpace (URLParam r ''id''))
            = Inl (InvalidObjectIdHex (TrimSpace (URLParam r ''id'')))
          \<and> deleteTodo env r wd
            = (Panicked (InvalidObjectIdHex (TrimSpace (URLParam r ''id''))), wd))"
proof
  let ?r = "\<lparr>Body = Malformed (GoError []), URLParams = [''id'' \<mapsto> ''xyz'']\<rparr>"
  have "TrimSpace (URLParam ?r ''id'') = ''xyz''"
    by (simp add: URLParam_def TrimSpace_xyz)
  then have inv: "\<not> IsObjectIdHex (TrimSpace (URLParam ?r ''id''))"
    using not_IsObjectIdHex_xyz by simp
  show "\<exists>r. \<not> IsObjectIdHex (TrimSpace (URLParam r ''id''))"
    by (rule exI [where x = ?r]) (rule inv)
next
  show "\<forall>r. \<not> IsObjectIdHex (TrimSpace (URLParam r ''id'')) \<longrightarrow>
          ObjectIdHex (TrimSpace (URLParam r ''id''))
            = Inl (InvalidObjectIdHex (TrimSpace (URLParam r ''id'')))
          \<and> deleteTodo env r wd
            = (Panicked (InvalidObjectIdHex (TrimSpace (URLParam r ''id''))), wd)"
    by (simp add: ObjectIdHex_panics deleteTodo_invalid)
qed

theorem deleteTodo_decode_panic_reachable_witness:
  "\<not> IsObjectIdHex ''xyz''
   \<and> ObjectIdHex ''xyz'' = Inl (InvalidObjectIdHex ''xyz'')
   \<and> deleteTodo (memEnv [])
        \<lparr>Body = Malformed (GoError []), URLParams = [''id'' \<mapsto> ''xyz'']\<rparr> emptyWorld
       = (Panicked (InvalidObjectIdHex ''xyz''), emptyWorld)"
proof -
  let ?r = "\<lparr>Body = Malformed (GoError []), URLParams = [''id'' \<mapsto> ''xyz'']\<rparr>"
  have t: "TrimSpace (URLParam ?r ''id'') = ''xyz''"
    by (simp add: URLParam_def TrimSpace_xyz)
  have n: "\<not> IsObjectIdHex ''xyz''"
    by (simp add: IsObjectIdHex_def)
  note deleteTodo_decode_panic_reachable
    [of "memEnv []" emptyWorld, THEN conjunct2, THEN spec, of ?r]
  then have "\<not> IsObjectIdHex ''xyz'' \<longrightarrow>
          ObjectIdHex ''xyz'' = Inl (InvalidObjectIdHex ''xyz'')
          \<and> deleteTodo (memEnv []) ?r emptyWorld
            = (Panicked (InvalidObjectIdHex ''xyz''), emptyWorld)"
    by (simp only: t)
  with n show ?thesis by simp
qed

subsection \<open>The create handler\<close>

text \<open>
  Claim C2. When the decoded body has an empty title, \<open>createTodo\<close> hands the payload
  \<^verbatim>\<open>{error: "The title cannot be empty"}\<close> to the renderer with the status 102 and
  returns; the database is as it was and no call is made on the collection, so
  \<^verbatim>\<open>Insert\<close> is never called.
\<close>

theorem createTodo_empty_title_rejected:
  "Decode (Body r) zeroTodo = Inr t \<Longrightarrow> todo.Title t = [] \<Longrightarrow>
   createTodo env r wd =
     (Returned,
      wd\<lparr>wrote := wrote wd @
        [(StatusProcessing, M [''error'' \<mapsto> JString ''The title cannot be empty''])]\<rparr>)
   \<and> db (snd (createTodo env r wd)) = db wd
   \<and> dbCalls (snd (createTodo env r wd)) = dbCalls wd"
  by (simp add: createTodo_def JSON_def)

theorem createTodo_empty_title_rejected_witness:
  "createTodo (memEnv ''0123456789ab'')
     \<lparr>Body = Object None (Some []) (Some True) None, URLParams = Map.empty\<rparr> emptyWorld =
     (Returned,
      emptyWorld\<lparr>wrote :=
        [(StatusProcessing, M [''error'' \<mapsto> JString ''The title cannot be empty''])]\<rparr>)
   \<and> db (snd (createTodo (memEnv ''0123456789ab'')
        \<lparr>Body = Object None (Some []) (Some True) None, URLParams = Map.empty\<rparr>
        emptyWorld)) = []
   \<and> dbCalls (snd (createTodo (memEnv ''0123456789ab'')
        \<lparr>Body = Object None (Some []) (Some True) None, URLParams = Map.empty\<rparr>
        emptyWorld)) = []"
proof -
  let ?r = "\<lparr>Body = Object None (Some []) (Some True) None, URLParams = Map.empty\<rparr>"
  let ?t = "\<lparr>todo.ID = [], todo.Title = [], todo.Completed = True,
             todo.CreatedAt = zeroTime\<rparr>"
  have d: "Decode (Body ?r) zeroTodo = Inr ?t"
    by (simp add: zeroTodo_def)
  have e: "todo.Title ?t = []"
    by simp
  from createTodo_empty_title_rejected [OF d e, of "memEnv ''0123456789ab''" emptyWorld]
  show ?thesis by (simp add: emptyWorld_def)
qed

text \<open>
  The tag of the first field of \<^verbatim>\<open>todoModel\<close> splits into \<^verbatim>\<open>_id\<close> and
  \<^verbatim>\<open> omitempty\<close>, and the second, with its space, is no flag \<^verbatim>\<open>bson\<close> knows. So
  \<open>Insert\<close> panics whenever the server is reached, returns the connection's error when
  it is not, and never returns nil.
\<close>

lemma todoModelTags_panic:
  "getStructInfo todoModelTags = Some (UnsupportedFlag '' omitempty'' ''_id, omitempty'')"
  by (simp add: todoModelTags_def checkTag_def)

lemma Insert_reached:
  "dbSocket env (db wd) = None \<Longrightarrow>
   Insert env tm wd =
     (Inl (UnsupportedFlag '' omitempty'' ''_id, omitempty''),
      wd\<lparr>dbCalls := dbCalls wd @ [CallInsert tm]\<rparr>)"
  by (simp add: Insert_def todoModelTags_panic)

lemma Insert_unreached:
  "dbSocket env (db wd) = Some err \<Longrightarrow>
   Insert env tm wd = (Inr (Some err), wd\<lparr>dbCalls := dbCalls wd @ [CallInsert tm]\<rparr>)"
  by (simp add: Insert_def)

lemma Insert_never_succeeds: "fst (Insert env tm wd) \<noteq> Inr None"
  by (cases "dbSocket env (db wd)") (simp_all add: Insert_reached Insert_unreached)

lemma Insert_error_iff:
  "(fst (Insert env tm wd) = Inr (Some err)) = (dbSocket env (db wd) = Some err)"
  by (cases "dbSocket env (db wd)") (simp_all add: Insert_reached Insert_unreached)

lemma createTodo_never_created:
  "(StatusCreated, p) \<in> set (wrote (snd (createTodo env r wd))) \<Longrightarrow>
   (StatusCreated, p) \<in> set (wrote wd)"
proof (cases "dbSocket env (db wd)")
  case None
  assume "(StatusCreated, p) \<in> set (wrote (snd (createTodo env r wd)))"
  with None show ?thesis
    by (auto simp: createTodo_def JSON_def Insert_reached Let_def StatusCreated_def
        StatusProcessing_def split: sum.splits if_splits)
next
  case (Some err)
  assume "(StatusCreated, p) \<in> set (wrote (snd (createTodo env r wd)))"
  with Some show ?thesis
    by (auto simp: createTodo_def JSON_def Insert_unreached Let_def StatusCreated_def
        StatusProcessing_def split: sum.splits if_splits)
qed

text \<open>
  Claim C6 asks for 201 and \<^verbatim>\<open>{message: "TODO created successfully", todo_id: ...}\<close>
  when the body decodes, the title is not empty and the insert succeeds. The handler has
  that branch, but no request gets there. For \<^verbatim>\<open>POST /todo\<close> with the body
  \<^verbatim>\<open>{"title": "buy milk"}\<close> and a server that is reached, \<^verbatim>\<open>Insert\<close> panics on
  the tag of \<^verbatim>\<open>todoModel.ID\<close>: nothing is inserted and nothing is written.
\<close>

theorem createTodo_insert_panics:
  "createTodo (memEnv ''0123456789ab'')
     \<lparr>Body = Object None (Some ''buy milk'') None None, URLParams = Map.empty\<rparr> emptyWorld =
     (Panicked (UnsupportedFlag '' omitempty'' ''_id, omitempty''),
      \<lparr>db = [],
       dbCalls = [CallInsert \<lparr>todoModel.ID = ''0123456789ab'', todoModel.Title = ''buy milk'',
              todoModel.Completed = False, todoModel.CreatedAt = zeroTime\<rparr>],
       wrote = []\<rparr>)"
proof -
  let ?env = "memEnv ''0123456789ab''"
  let ?tm = "\<lparr>todoModel.ID = ''0123456789ab'', todoModel.Title = ''buy milk'',
              todoModel.Completed = False, todoModel.CreatedAt = zeroTime\<rparr>"
  have s: "dbSocket ?env (db emptyWorld) = None"
    by (simp add: memEnv_def)
  have i: "Insert ?env ?tm emptyWorld =
     (Inl (UnsupportedFlag '' omitempty'' ''_id, omitempty''),
      emptyWorld\<lparr>dbCalls := dbCalls emptyWorld @ [CallInsert ?tm]\<rparr>)"
    by (rule Insert_reached [OF s])
  have n: "newObjectId ?env = ''0123456789ab''"
    by (simp add: memEnv_def)
  show ?thesis
    by (simp add: createTodo_def zeroTodo_def toRecord_def n i Let_def) (simp add: emptyWorld_def)
qed




text \<open>
  The errors of \<open>createTodo\<close>. After a decode error and after a store error the handler
  gives the result of \<^verbatim>\<open>rndr.JSON\<close> to \<open>checkerr\<close>, and \<^verbatim>\<open>log.Fatal\<close> ends the
  process when the rendering failed. In \<open>downEnv\<close> the insert fails and so does the write
  to the client: the request with the title \<^verbatim>\<open>buy milk\<close> ends the process, and so does
  a request whose body does not decode.
\<close>

theorem createTodo_render_failure_is_fatal:
  "fst (Insert (downEnv ''0123456789ab'')
     (toRecord \<lparr>todo.ID = [], todo.Title = ''buy milk'', todo.Completed = False,
                 todo.CreatedAt = zeroTime\<rparr> ''0123456789ab'') emptyWorld)
     = Inr (Some (GoError ''no reachable servers''))
   \<and> fst (createTodo (downEnv ''0123456789ab'')
        \<lparr>Body = Object None (Some ''buy milk'') None None, URLParams = Map.empty\<rparr> emptyWorld)
     = Fatal (GoError ''write: broken pipe'')
   \<and> fst (createTodo (downEnv ''0123456789ab'')
        \<lparr>Body = Malformed (GoError ''unexpected EOF''), URLParams = Map.empty\<rparr> emptyWorld)
     = Fatal (GoError ''write: broken pipe'')"
  by (simp add: createTodo_def downEnv_def offlineEnv_def emptyWorld_def zeroTodo_def Insert_def
      JSON_def checkerr_def toRecord_def Let_def)

text \<open>
  Claim C7, as the code has it. A body that does not decode is answered with the
  decoder's error, and a failed insert with
  \<^verbatim>\<open>{message: "Failed to create TODO", error: ...}\<close> holding the error \<^verbatim>\<open>Insert\<close>
  returned. The generated identifier does not appear in that response: the payload and
  the way the handler ends are the same whatever identifier was generated. In both cases
  the handler returns exactly when the rendering succeeded, and the process ends
  otherwise. An empty title is answered with \<^verbatim>\<open>{error: "The title cannot be empty"}\<close>,
  and the handler returns whatever the renderer did. All three payloads are handed to
  the renderer with the status 102.
\<close>

theorem createTodo_errors_answered:
  "(Decode (Body r1) zeroTodo = Inl e \<longrightarrow>
      createTodo env r1 wd =
        (checkerr (jsonError env StatusProcessing (ErrorBody e)),
         wd\<lparr>wrote := wrote wd @ [(StatusProcessing, ErrorBody e)]\<rparr>))
   \<and> (Decode (Body r2) zeroTodo = Inr t2 \<and> todo.Title t2 = [] \<longrightarrow>
      createTodo env r2 wd =
        (Returned,
         wd\<lparr>wrote := wrote wd @
           [(StatusProcessing, M [''error'' \<mapsto> JString ''The title cannot be empty''])]\<rparr>))
   \<and> (Decode (Body r3) zeroTodo = Inr t3 \<and> todo.Title t3 \<noteq> []
        \<and> fst (Insert env (toRecord t3 (newObjectId env)) wd) = Inr (Some err) \<longrightarrow>
      createTodo env r3 wd =
        (checkerr (jsonError env StatusProcessing
           (M [''message'' \<mapsto> JString ''Failed to create TODO'', ''error'' \<mapsto> JError err])),
         wd\<lparr>dbCalls := dbCalls wd @ [CallInsert (toRecord t3 (newObjectId env))],
            wrote := wrote wd @
              [(StatusProcessing,
                M [''message'' \<mapsto> JString ''Failed to create TODO'',
                   ''error'' \<mapsto> JError err])]\<rparr>)
      \<and> (\<forall>oid. fst (createTodo (env\<lparr>newObjectId := oid\<rparr>) r3 wd) = fst (createTodo env r3 wd)
            \<and> wrote (snd (createTodo (env\<lparr>newObjectId := oid\<rparr>) r3 wd))
                = wrote (snd (createTodo env r3 wd))))
   \<and> (checkerr err1 = Returned) = (err1 = None)"
proof (intro conjI impI)
  assume "Decode (Body r1) zeroTodo = Inl e"
  then show "createTodo env r1 wd =
        (checkerr (jsonError env StatusProcessing (ErrorBody e)),
         wd\<lparr>wrote := wrote wd @ [(StatusProcessing, ErrorBody e)]\<rparr>)"
    by (simp add: createTodo_def JSON_def)
next
  assume "Decode (Body r2) zeroTodo = Inr t2 \<and> todo.Title t2 = []"
  then show "createTodo env r2 wd =
        (Returned,
         wd\<lparr>wrote := wrote wd @
           [(StatusProcessing, M [''error'' \<mapsto> JString ''The title cannot be empty''])]\<rparr>)"
    by (simp add: createTodo_def JSON_def)
next
  assume h: "Decode (Body r3) zeroTodo = Inr t3 \<and> todo.Title t3 \<noteq> []
        \<and> fst (Insert env (toRecord t3 (newObjectId env)) wd) = Inr (Some err)"
  then have s: "dbSocket env (db wd) = Some err"
    by (simp add: Insert_error_iff)
  from h s show "createTodo env r3 wd =
        (checkerr (jsonError env StatusProcessing
           (M [''message'' \<mapsto> JString ''Failed to create TODO'', ''error'' \<mapsto> JError err])),
         wd\<lparr>dbCalls := dbCalls wd @ [CallInsert (toRecord t3 (newObjectId env))],
            wrote := wrote wd @
              [(StatusProcessing,
                M [''message'' \<mapsto> JString ''Failed to create TODO'',
                   ''error'' \<mapsto> JError err])]\<rparr>)"
    by (simp add: createTodo_def JSON_def Insert_unreached Let_def)
next
  assume h: "Decode (Body r3) zeroTodo = Inr t3 \<and> todo.Title t3 \<noteq> []
        \<and> fst (Insert env (toRecord t3 (newObjectId env)) wd) = Inr (Some err)"
  then have s: "dbSocket env (db wd) = Some err"
    by (simp add: Insert_error_iff)
  show "\<forall>oid. fst (createTodo (env\<lparr>newObjectId := oid\<rparr>) r3 wd) = fst (createTodo env r3 wd)
            \<and> wrote (snd (createTodo (env\<lparr>newObjectId := oid\<rparr>) r3 wd))
                = wrote (snd (createTodo env r3 wd))"
  proof
    fix oid
    have s': "dbSocket (env\<lparr>newObjectId := oid\<rparr>) (db wd) = Some err"
      using s by simp
    from h s s' show "fst (createTodo (env\<lparr>newObjectId := oid\<rparr>) r3 wd) = fst (createTodo env r3 wd)
            \<and> wrote (snd (createTodo (env\<lparr>newObjectId := oid\<rparr>) r3 wd))
                = wrote (snd (createTodo env r3 wd))"
      by (simp add: createTodo_def JSON_def Insert_unreached Let_def)
  qed
next
  show "(checkerr err1 = Returned) = (err1 = None)"
    by (simp add: checkerr_def split: option.splits)
qed

theorem createTodo_errors_answered_witness:
  "createTodo (offlineEnv ''0123456789ab'')
     \<lparr>Body = Malformed (GoError ''unexpected EOF''), URLParams = Map.empty\<rparr> emptyWorld
   = (Returned,
      \<lparr>db = [], dbCalls = [], wrote = [(102, ErrorBody (GoError ''unexpected EOF''))]\<rparr>)
   \<and> createTodo (offlineEnv ''0123456789ab'')
     \<lparr>Body = Object None None None None, URLParams = Map.empty\<rparr> emptyWorld
   = (Returned,
      \<lparr>db = [], dbCalls = [],
       wrote = [(102, M [''error'' \<mapsto> JString ''The title cannot be empty''])]\<rparr>)
   \<and> createTodo (offlineEnv ''0123456789ab'')
     \<lparr>Body = Object None (Some ''buy milk'') None None, URLParams = Map.empty\<rparr> emptyWorld
   = (Returned,
      \<lparr>db = [],
       dbCalls = [CallInsert \<lparr>todoModel.ID = ''0123456789ab'', todoModel.Title = ''buy milk'',
              todoModel.Completed = False, todoModel.CreatedAt = zeroTime\<rparr>],
       wrote = [(102, M [''message'' \<mapsto> JString ''Failed to create TODO'',
                         ''error'' \<mapsto> JError (GoError ''no reachable servers'')])]\<rparr>)
   \<and> fst (createTodo ((offlineEnv ''0123456789ab'')\<lparr>newObjectId := ''ba9876543210''\<rparr>)
     \<lparr>Body = Object None (Some ''buy milk'') None None, URLParams = Map.empty\<rparr> emptyWorld)
     = Returned
   \<and> wrote (snd (createTodo ((offlineEnv ''0123456789ab'')\<lparr>newObjectId := ''ba9876543210''\<rparr>)
     \<lparr>Body = Object None (Some ''buy milk'') None None, URLParams = Map.empty\<rparr> emptyWorld))
     = [(102, M [''message'' \<mapsto> JString ''Failed to create TODO'',
                 ''error'' \<mapsto> JError (GoError ''no reachable servers'')])]"
proof -
  let ?env = "offlineEnv ''0123456789ab''"
  let ?r1 = "\<lparr>Body = Malformed (GoError ''unexpected EOF''), URLParams = Map.empty\<rparr>"
  let ?r2 = "\<lparr>Body = Object None None None None, URLParams = Map.empty\<rparr>"
  let ?r3 = "\<lparr>Body = Object None (Some ''buy milk'') None None, URLParams = Map.empty\<rparr>"
  let ?t3 = "\<lparr>todo.ID = [], todo.Title = ''buy milk'', todo.Completed = False,
              todo.CreatedAt = zeroTime\<rparr>"
  let ?err = "GoError ''no reachable servers''"
  let ?p = "M [''message'' \<mapsto> JString ''Failed to create TODO'', ''error'' \<mapsto> JError ?err]"
  have d1: "Decode (Body ?r1) zeroTodo = Inl (GoError ''unexpected EOF'')"
    by simp
  have d2: "Decode (Body ?r2) zeroTodo = Inr zeroTodo \<and> todo.Title zeroTodo = []"
    by (simp add: zeroTodo_def)
  have d3: "Decode (Body ?r3) zeroTodo = Inr ?t3 \<and> todo.Title ?t3 \<noteq> []
        \<and> fst (Insert ?env (toRecord ?t3 (newObjectId ?env)) emptyWorld) = Inr (Some ?err)"
    by (simp add: zeroTodo_def offlineEnv_def Insert_def Let_def)
  note th = createTodo_errors_answered
    [of ?r1 "GoError ''unexpected EOF''" ?env emptyWorld ?r2 zeroTodo ?r3 ?t3 ?err None]
  from th d1 have a: "createTodo ?env ?r1 emptyWorld =
        (checkerr (jsonError ?env StatusProcessing (ErrorBody (GoError ''unexpected EOF''))),
         emptyWorld\<lparr>wrote := wrote emptyWorld @
           [(StatusProcessing, ErrorBody (GoError ''unexpected EOF''))]\<rparr>)"
    by (rule conjunct1 [THEN mp])
  from th have "Decode (Body ?r2) zeroTodo = Inr zeroTodo \<and> todo.Title zeroTodo = [] \<longrightarrow>
      createTodo ?env ?r2 emptyWorld =
        (Returned,
         emptyWorld\<lparr>wrote := wrote emptyWorld @
           [(StatusProcessing, M [''error'' \<mapsto> JString ''The title cannot be empty''])]\<rparr>)"
    by (rule conjunct2 [THEN conjunct1])
  with d2 have b: "createTodo ?env ?r2 emptyWorld =
        (Returned,
         emptyWorld\<lparr>wrote := wrote emptyWorld @
           [(StatusProcessing, M [''error'' \<mapsto> JString ''The title cannot be empty''])]\<rparr>)"
    by (rule rev_mp)
  from th have "Decode (Body ?r3) zeroTodo = Inr ?t3 \<and> todo.Title ?t3 \<noteq> []
        \<and> fst (Insert ?env (toRecord ?t3 (newObjectId ?env)) emptyWorld) = Inr (Some ?err) \<longrightarrow>
      createTodo ?env ?r3 emptyWorld =
        (checkerr (jsonError ?env StatusProcessing ?p),
         emptyWorld\<lparr>dbCalls := dbCalls emptyWorld @ [CallInsert (toRecord ?t3 (newObjectId ?env))],
            wrote := wrote emptyWorld @ [(StatusProcessing, ?p)]\<rparr>)
      \<and> (\<forall>oid. fst (createTodo (?env\<lparr>newObjectId := oid\<rparr>) ?r3 emptyWorld)
                  = fst (createTodo ?env ?r3 emptyWorld)
            \<and> wrote (snd (createTodo (?env\<lparr>newObjectId := oid\<rparr>) ?r3 emptyWorld))
                = wrote (snd (createTodo ?env ?r3 emptyWorld)))"
    by (rule conjunct2 [THEN conjunct2, THEN conjunct1])
  with d3 have c: "createTodo ?env ?r3 emptyWorld =
        (checkerr (jsonError ?env StatusProcessing ?p),
         emptyWorld\<lparr>dbCalls := dbCalls emptyWorld @ [CallInsert (toRecord ?t3 (newObjectId ?env))],
            wrote := wrote emptyWorld @ [(StatusProcessing, ?p)]\<rparr>)
      \<and> (\<forall>oid. fst (createTodo (?env\<lparr>newObjectId := oid\<rparr>) ?r3 emptyWorld)
                  = fst (createTodo ?env ?r3 emptyWorld)
            \<and> wrote (snd (createTodo (?env\<lparr>newObjectId := oid\<rparr>) ?r3 emptyWorld))
                = wrote (snd (createTodo ?env ?r3 emptyWorld)))"
    by (rule rev_mp)
  have a': "createTodo ?env ?r1 emptyWorld = (Returned,
      \<lparr>db = [], dbCalls = [], wrote = [(102, ErrorBody (GoError ''unexpected EOF''))]\<rparr>)"
    using a by (simp add: offlineEnv_def checkerr_def StatusProcessing_def emptyWorld_def)
  have b': "createTodo ?env ?r2 emptyWorld = (Returned,
      \<lparr>db = [], dbCalls = [],
       wrote = [(102, M [''error'' \<mapsto> JString ''The title cannot be empty''])]\<rparr>)"
    using b by (simp add: StatusProcessing_def emptyWorld_def)
  have c': "createTodo ?env ?r3 emptyWorld = (Returned,
      \<lparr>db = [],
       dbCalls = [CallInsert \<lparr>todoModel.ID = ''0123456789ab'', todoModel.Title = ''buy milk'',
              todoModel.Completed = False, todoModel.CreatedAt = zeroTime\<rparr>],
       wrote = [(102, ?p)]\<rparr>)"
    using c [THEN conjunct1]
    by (simp add: offlineEnv_def checkerr_def StatusProcessing_def toRecord_def emptyWorld_def)
  note ind = c [THEN conjunct2, THEN spec, of "''ba9876543210''"]
  have e': "fst (createTodo (?env\<lparr>newObjectId := ''ba9876543210''\<rparr>) ?r3 emptyWorld) = Returned"
    using ind [THEN conjunct1] c' by simp
  have f': "wrote (snd (createTodo (?env\<lparr>newObjectId := ''ba9876543210''\<rparr>) ?r3 emptyWorld))
      = [(102, ?p)]"
    using ind [THEN conjunct2] c' by simp
  from a' b' c' e' f' show ?thesis by (intro conjI)
qed

subsection \<open>The list handler\<close>

text \<open>
  Claim C5. When the find succeeds with no record, \<open>fetchTodo\<close> hands
  \<^verbatim>\<open>{data: []}\<close> to the renderer with the status 200: the value of \<^verbatim>\<open>data\<close> is the
  empty slice made by \<^verbatim>\<open>[]todo{}\<close>, which is not nil, so its JSON is \<^verbatim>\<open>[]\<close> and not
  \<^verbatim>\<open>null\<close>.
\<close>

theorem fetchTodo_empty_collection:
  "dbFindAll env (db wd) = (Inr [], s) \<Longrightarrow>
   fetchTodo env r wd =
     (checkerr (jsonError env StatusOK (M [''data'' \<mapsto> JTodos (Slice [])])),
      wd\<lparr>db := s, dbCalls := dbCalls wd @ [CallFindAll],
         wrote := wrote wd @ [(StatusOK, M [''data'' \<mapsto> JTodos (Slice [])])]\<rparr>)
   \<and> \<not> jsonNull (JTodos (Slice []))"
  by (simp add: fetchTodo_def FindAll_def JSON_def Let_def)

theorem fetchTodo_empty_collection_witness:
  "fetchTodo (memEnv ''0123456789ab'')
     \<lparr>Body = Malformed (GoError ''EOF''), URLParams = Map.empty\<rparr> emptyWorld =
     (Returned,
      \<lparr>db = [], dbCalls = [CallFindAll],
       wrote = [(StatusOK, M [''data'' \<mapsto> JTodos (Slice [])])]\<rparr>)
   \<and> \<not> jsonNull (JTodos (Slice []))"
proof -
  have f: "dbFindAll (memEnv ''0123456789ab'') (db emptyWorld) = (Inr [], [])"
    by (simp add: memEnv_def emptyWorld_def)
  from fetchTodo_empty_collection [OF f]
  show ?thesis by (simp add: emptyWorld_def memEnv_def checkerr_def)
qed

text \<open>
  \<open>FindAll\<close> panics as soon as the find brings a document back, on the same tag as
  \<open>Insert\<close>.
\<close>

lemma FindAll_documents_panic:
  "dbFindAll env (db wd) = (Inr (d # ds), s) \<Longrightarrow>
   FindAll env wd =
     (Inl (UnsupportedFlag '' omitempty'' ''_id, omitempty''),
      wd\<lparr>db := s, dbCalls := dbCalls wd @ [CallFindAll]\<rparr>)"
  by (simp add: FindAll_def todoModelTags_panic)

lemma fetchTodo_documents_panic:
  "dbFindAll env (db wd) = (Inr (d # ds), s) \<Longrightarrow>
   fetchTodo env r wd =
     (Panicked (UnsupportedFlag '' omitempty'' ''_id, omitempty''),
      wd\<lparr>db := s, dbCalls := dbCalls wd @ [CallFindAll]\<rparr>)"
  by (simp add: fetchTodo_def FindAll_documents_panic)

text \<open>
  Claim C8 asks that the \<^verbatim>\<open>data\<close> of the response hold the wire form of every record
  the find returned, in the order of the find. The loop of \<open>fetchTodo\<close> does that
  (\<open>fetchLoop_map\<close>), but it is never given a record. For \<^verbatim>\<open>GET /todo\<close> on a
  collection that holds one document, \<^verbatim>\<open>Find(bson.M{}).All\<close> panics on the tag of
  \<^verbatim>\<open>todoModel.ID\<close> when it unmarshals the document, and nothing is written.
\<close>

theorem fetchTodo_one_document_panics:
  "fetchTodo (memEnv ''ba9876543210'')
     \<lparr>Body = Malformed (GoError ''EOF''), URLParams = Map.empty\<rparr>
     \<lparr>db = [\<lparr>todoModel.ID = ''0123456789ab'', todoModel.Title = ''buy milk'',
              todoModel.Completed = False, todoModel.CreatedAt = zeroTime\<rparr>],
      dbCalls = [], wrote = []\<rparr>
   = (Panicked (UnsupportedFlag '' omitempty'' ''_id, omitempty''),
      \<lparr>db = [\<lparr>todoModel.ID = ''0123456789ab'', todoModel.Title = ''buy milk'',
              todoModel.Completed = False, todoModel.CreatedAt = zeroTime\<rparr>],
       dbCalls = [CallFindAll], wrote = []\<rparr>)"
proof -
  let ?tm = "\<lparr>todoModel.ID = ''0123456789ab'', todoModel.Title = ''buy milk'',
              todoModel.Completed = False, todoModel.CreatedAt = zeroTime\<rparr>"
  let ?wd = "\<lparr>db = [?tm], dbCalls = [], wrote = []\<rparr>"
  have f: "dbFindAll (memEnv ''ba9876543210'') (db ?wd) = (Inr (?tm # []), [?tm])"
    by (simp add: memEnv_def)
  from fetchTodo_documents_panic [OF f]
  show ?thesis by simp
qed

text \<open>
  The payloads that go out with the status 102 reach the client under the final status
  200.
\<close>

lemma served_StatusProcessing: "served [(StatusProcessing, v)] = (StatusOK, [v])"
  by (simp add: served_def informational_def StatusProcessing_def)

end
